theory Spec2Isabelle
  imports Main "HOL-Library.Sublist" "HOL-Library.Monad_Syntax"
begin

section \<open>Values of a request body\<close>

text \<open>
  \<^verbatim>\<open>req.body\<close> is filled by \<^verbatim>\<open>express.json()\<close> (line 45) or by multer from the text
  parts of a multipart form (line 105), so a field holds a JSON value or is absent.
  Numbers are kept as integers: the program only asks whether a number is zero and,
  in the schema's String cast, for its text. An object is the list of its properties.
\<close>

datatype jsval =
    JUndefined
  | JNull
  | JBool bool
  | JNum int
  | JStr string
  | JArr "jsval list"
  | JObj "(string \<times> jsval) list"

text \<open>JavaScript's \<^verbatim>\<open>ToBoolean\<close>: what \<^verbatim>\<open>!v\<close> and \<^verbatim>\<open>v || w\<close> test.\<close>

fun truthy :: "jsval \<Rightarrow> bool" where
  "truthy JUndefined = False"
| "truthy JNull = False"
| "truthy (JBool b) = b"
| "truthy (JNum n) = (n \<noteq> 0)"
| "truthy (JStr s) = (s \<noteq> [])"
| "truthy (JArr vs) = True"
| "truthy (JObj kvs) = True"

text \<open>\<^verbatim>\<open>a || b\<close>\<close>

definition js_or :: "jsval \<Rightarrow> jsval \<Rightarrow> jsval" where
  "js_or a b = (if truthy a then a else b)"

text \<open>\<^verbatim>\<open>o[k]\<close> on the properties of an object: a key set again holds its later value, a
  key that is not there reads as \<^verbatim>\<open>undefined\<close>.\<close>

definition get_prop :: "(string \<times> jsval) list \<Rightarrow> string \<Rightarrow> jsval" where
  "get_prop kvs k = (case map_of (rev kvs) k of None \<Rightarrow> JUndefined | Some v \<Rightarrow> v)"

type_synonym body = "string \<rightharpoonup> jsval"

text \<open>Reading a property of \<^verbatim>\<open>req.body\<close> by destructuring (lines 111-115): a key that
  is not there reads as \<^verbatim>\<open>undefined\<close>.\<close>

definition body_field :: "body \<Rightarrow> string \<Rightarrow> jsval" where
  "body_field b k = (case b k of None \<Rightarrow> JUndefined | Some v \<Rightarrow> v)"

section \<open>The runtime the program calls\<close>

text \<open>
  Three functions of the JavaScript runtime are taken as parameters, since their
  definitions lie outside the repository: the \<^verbatim>\<open>Date\<close> constructor (its parse of a
  string is implementation-defined; \<open>None\<close> is an Invalid Date), Node's
  \<^verbatim>\<open>path.extname\<close>, and the text of a number (\<^verbatim>\<open>Number.prototype.toString\<close>, which a
  template literal and the schema's String cast call).
\<close>

record runtime =
  new_Date :: "jsval \<Rightarrow> int option"
  extname :: "string \<Rightarrow> string"
  Number_toString :: "int \<Rightarrow> string"

text \<open>The decimal text of an integer: the text of a number of ordinary size, such as
  \<^verbatim>\<open>Date.now()\<close>. The concrete runtime below prints numbers with it.\<close>

definition digit :: "nat \<Rightarrow> char" where
  "digit n = ''0123456789'' ! (n mod 10)"

function decimal_nat :: "nat \<Rightarrow> string" where
  "decimal_nat n = (if n < 10 then [digit n] else decimal_nat (n div 10) @ [digit n])"
  by pat_completeness auto
termination
  by (relation "measure id") auto

declare decimal_nat.simps [simp del]

definition decimal :: "int \<Rightarrow> string" where
  "decimal i = (if i < 0 then CHR ''-'' # decimal_nat (nat (- i)) else decimal_nat (nat i))"

section \<open>The Booking schema (lines 4-20)\<close>

record booking =
  bookingId :: string
  name :: string
  contact :: string
  aadhar :: string
  aadharPhoto :: "string option"
  license :: string
  licensePhoto :: "string option"
  pickup :: string
  drop' :: string
  pickupDate :: int
  returnDate :: int
  paymentMode :: string
  txnId :: "string option"
  aadhaarVerified :: bool
  createdAt :: int

text \<open>
  Mongoose casts every value it is given to the type of its path and validates the
  document when it is saved. A cast either fails, or yields nothing (the value was
  \<^verbatim>\<open>null\<close> or \<^verbatim>\<open>undefined\<close>), or yields a value of the path's type.
\<close>

datatype 'a casted = CastError | Nothing | Val 'a

text \<open>
  The String cast: \<^verbatim>\<open>null\<close> and \<^verbatim>\<open>undefined\<close> stay as they are; a value with a
  non-empty string \<^verbatim>\<open>_id\<close> is cast to that \<^verbatim>\<open>_id\<close>; a boolean, a number and a string
  are cast by their \<^verbatim>\<open>toString\<close>; an array and any other object are a cast error.
\<close>

fun cast_String :: "runtime \<Rightarrow> jsval \<Rightarrow> string casted" where
  "cast_String rt JUndefined = Nothing"
| "cast_String rt JNull = Nothing"
| "cast_String rt (JBool b) = Val (if b then ''true'' else ''false'')"
| "cast_String rt (JNum n) = Val (Number_toString rt n)"
| "cast_String rt (JStr s) = Val s"
| "cast_String rt (JArr vs) = CastError"
| "cast_String rt (JObj kvs) =
     (case get_prop kvs ''_id'' of
        JStr s \<Rightarrow> (if s \<noteq> [] then Val s else CastError)
      | _ \<Rightarrow> CastError)"

text \<open>A Date path given a \<^verbatim>\<open>Date\<close> object keeps it unless it is an Invalid Date.\<close>

fun cast_Date :: "int option \<Rightarrow> int casted" where
  "cast_Date None = CastError"
| "cast_Date (Some t) = Val t"

text \<open>\<^verbatim>\<open>{ type: String, required: true }\<close>: the cast must yield a non-empty string.\<close>

definition required_String :: "runtime \<Rightarrow> jsval \<Rightarrow> string option" where
  "required_String rt v =
     (case cast_String rt v of Val s \<Rightarrow> (if s = [] then None else Some s) | _ \<Rightarrow> None)"

text \<open>\<^verbatim>\<open>{ type: Date, required: true }\<close>\<close>

definition required_Date :: "int option \<Rightarrow> int option" where
  "required_Date d = (case cast_Date d of Val t \<Rightarrow> Some t | _ \<Rightarrow> None)"

text \<open>\<^verbatim>\<open>{ type: String }\<close>: nothing is required, but the cast must not fail.\<close>

definition optional_String :: "runtime \<Rightarrow> jsval \<Rightarrow> string option option" where
  "optional_String rt v =
     (case cast_String rt v of
        CastError \<Rightarrow> None
      | Nothing \<Rightarrow> Some None
      | Val s \<Rightarrow> Some (Some s))"

text \<open>The text a String path keeps of a value it is given: a submitted string itself,
  and the \<^verbatim>\<open>_id\<close> of a submitted object that has a string \<^verbatim>\<open>_id\<close>.\<close>

definition text_of :: "runtime \<Rightarrow> jsval \<Rightarrow> string option" where
  "text_of rt v = (case cast_String rt v of Val s \<Rightarrow> Some s | _ \<Rightarrow> None)"

text \<open>\<^verbatim>\<open>{ type: String, enum: ['UPI','Cash'], default: 'UPI' }\<close> (line 16): the enum
  validator runs on a value that is there, the default fills a value that is not.\<close>

definition paymentMode_path :: "runtime \<Rightarrow> jsval \<Rightarrow> string option" where
  "paymentMode_path rt v =
     (case cast_String rt v of
        CastError \<Rightarrow> None
      | Nothing \<Rightarrow> Some ''UPI''
      | Val s \<Rightarrow> (if s = ''UPI'' \<or> s = ''Cash'' then Some s else None))"

section \<open>File Intake (lines 56-84)\<close>

text \<open>
  A file part of a multipart request. \<open>originalname\<close> is the file name the part
  declares; it is empty for the part a browser sends for a file input left empty.
  \<open>stamp\<close> and \<open>tok\<close> are what \<^verbatim>\<open>Date.now()\<close> and \<^verbatim>\<open>shortid.generate()\<close> return while
  the part's stored name is made (line 69).
\<close>

record upload =
  fieldname :: string
  originalname :: string
  mimetype :: string
  size' :: nat
  stamp :: int
  tok :: string

text \<open>The file object multer hands to the route: the part and its stored name.\<close>

record stored_file = upload +
  filename :: string

text \<open>The upload directory: stored name to stored part.\<close>

type_synonym disk = "string \<rightharpoonup> upload"

text \<open>The error kinds of File Intake: \<^verbatim>\<open>new Error('Only image uploads allowed')\<close> of
  line 80, and multer's \<^verbatim>\<open>LIMIT_FILE_SIZE\<close> and \<^verbatim>\<open>LIMIT_UNEXPECTED_FILE\<close>.\<close>

datatype intake_error = UnsupportedMediaType | PayloadTooLarge | UnexpectedFile

text \<open>\<^verbatim>\<open>limits: { fileSize: 5 * 1024 * 1024 }\<close> (line 76)\<close>

definition fileSize :: nat where
  "fileSize = 5 * 1024 * 1024"

text \<open>\<^verbatim>\<open>fileFilter\<close> (lines 77-83)\<close>

definition fileFilter :: "'a upload_scheme \<Rightarrow> intake_error + bool" where
  "fileFilter file =
     (if \<not> prefix ''image/'' (mimetype file) then Inl UnsupportedMediaType else Inr True)"

text \<open>\<^verbatim>\<open>storage.filename\<close> (lines 67-71)\<close>

definition storage_filename :: "runtime \<Rightarrow> 'a upload_scheme \<Rightarrow> string" where
  "storage_filename rt file =
     (let ext = extname rt (originalname file);
          fname = Number_toString rt (stamp file) @ ''-'' @ tok file @ ext
      in fname)"

definition stored :: "runtime \<Rightarrow> upload \<Rightarrow> stored_file" where
  "stored rt file = upload.extend file (stored_file.fields (storage_filename rt file))"

text \<open>
  One file through File Intake: the filter sees the part's headers first; an accepted
  part is then written under its generated name, and a part longer than the limit is
  cut off there and its file removed again.
\<close>

definition accept :: "runtime \<Rightarrow> upload \<Rightarrow> disk \<Rightarrow> intake_error \<times> disk + stored_file \<times> disk" where
  "accept rt file d =
     (case fileFilter file of
        Inl e \<Rightarrow> Inl (e, d)
      | Inr _ \<Rightarrow>
          (let fname = storage_filename rt file in
           if fileSize < size' file then Inl (PayloadTooLarge, d(fname := None))
           else Inr (stored rt file, d(fname \<mapsto> file))))"

text \<open>multer removes the files a request has stored when it aborts the request.\<close>

fun removeUploadedFiles :: "stored_file list \<Rightarrow> disk \<Rightarrow> disk" where
  "removeUploadedFiles [] d = d"
| "removeUploadedFiles (f # fs) d = removeUploadedFiles fs (d(filename f := None))"

text \<open>
  \<^verbatim>\<open>upload.fields([{ name: 'aadharPhoto', maxCount: 1 }, { name: 'licensePhoto',
  maxCount: 1 }])\<close> (lines 105-108): how many files each slot may still take.
\<close>

definition filesLeft0 :: "string \<Rightarrow> nat" where
  "filesLeft0 = (\<lambda>_. 0)(''aadharPhoto'' := 1, ''licensePhoto'' := 1)"

text \<open>
  The file parts of a request in their order. multer passes over a part that declares
  no file name before it looks at anything else; a part in a slot that takes no more
  files is unexpected; every other part goes through File Intake. The first error
  aborts the request.
\<close>

fun upload_parts ::
  "runtime \<Rightarrow> upload list \<Rightarrow> (string \<Rightarrow> nat) \<Rightarrow> stored_file list \<Rightarrow> disk
     \<Rightarrow> intake_error \<times> disk + stored_file list \<times> disk" where
  "upload_parts rt [] left acc d = Inr (acc, d)"
| "upload_parts rt (file # rest) left acc d =
     (if originalname file = [] then upload_parts rt rest left acc d
      else if left (fieldname file) = 0 then Inl (UnexpectedFile, removeUploadedFiles acc d)
      else
        (case accept rt file d of
           Inl (e, d') \<Rightarrow> Inl (e, removeUploadedFiles acc d')
         | Inr (f, d') \<Rightarrow>
             upload_parts rt rest (left(fieldname file := left (fieldname file) - 1))
               (acc @ [f]) d'))"

definition upload_fields ::
  "runtime \<Rightarrow> upload list \<Rightarrow> disk \<Rightarrow> intake_error \<times> disk + stored_file list \<times> disk" where
  "upload_fields rt ps d = upload_parts rt ps filesLeft0 [] d"

type_synonym files = "string \<rightharpoonup> stored_file list"

text \<open>\<^verbatim>\<open>req.files\<close>: the stored files under their field names.\<close>

definition req_files :: "stored_file list \<Rightarrow> files" where
  "req_files fs k =
     (case filter (\<lambda>f. fieldname f = k) fs of [] \<Rightarrow> None | f # r \<Rightarrow> Some (f # r))"

section \<open>The store\<close>

text \<open>The bookings collection, in insertion order.\<close>

type_synonym store = "booking list"

text \<open>
  The handlers reach the store through mongoose: \<^verbatim>\<open>booking.save()\<close> (line 153),
  \<^verbatim>\<open>Booking.findOne({ bookingId })\<close> (line 170) and
  \<^verbatim>\<open>Booking.find().sort({ createdAt: -1 }).limit(200)\<close> (line 182). They are the
  database's, taken as documented and as the specification names them:
  "create-if-unique-id, find-one-by-id, find-many-ordered-desc-by-creation-time-limited".
  \<open>save\<close> is refused on a \<open>bookingId\<close> the collection holds: the unique index that
  line 5 declares.
\<close>

definition save :: "booking \<Rightarrow> store \<Rightarrow> store option" where
  "save b st = (if bookingId b \<in> set (map bookingId st) then None else Some (st @ [b]))"

definition findOne :: "string \<Rightarrow> store \<Rightarrow> booking option" where
  "findOne bid st = find (\<lambda>b. bookingId b = bid) st"

definition sort_createdAt_desc :: "store \<Rightarrow> booking list" where
  "sort_createdAt_desc st = rev (sort_key createdAt st)"

section \<open>Responses\<close>

datatype payload =
    Error string
  | Created string booking
  | Booking booking
  | Bookings "booking list"
  | Unhandled intake_error

datatype response = Response (status: nat) (payload: payload)

section \<open>POST /api/bookings (lines 105-165)\<close>

text \<open>The required-field test of line 117.\<close>

definition missing_required :: "body \<Rightarrow> bool" where
  "missing_required b =
     (\<not> truthy (body_field b ''name'') \<or> \<not> truthy (body_field b ''contact'')
      \<or> \<not> truthy (body_field b ''aadhar'') \<or> \<not> truthy (body_field b ''license'')
      \<or> \<not> truthy (body_field b ''pickup'') \<or> \<not> truthy (body_field b ''drop'')
      \<or> \<not> truthy (body_field b ''pickupDate'') \<or> \<not> truthy (body_field b ''returnDate''))"

text \<open>The verification test of line 122.\<close>

definition not_verified :: "jsval \<Rightarrow> bool" where
  "not_verified v = (\<not> truthy v \<or> (v \<noteq> JStr ''true'' \<and> v \<noteq> JBool True))"

text \<open>\<^verbatim>\<open>req.files && req.files[slot] && req.files[slot][0]\<close> (lines 127-128)\<close>

definition first_file :: "files option \<Rightarrow> string \<Rightarrow> stored_file option" where
  "first_file fo slot =
     (case fo of
        None \<Rightarrow> None
      | Some fs \<Rightarrow> (case fs slot of None \<Rightarrow> None | Some [] \<Rightarrow> None | Some (f # _) \<Rightarrow> Some f))"

text \<open>
  \<^verbatim>\<open>new Booking({...})\<close> (lines 136-151) under the schema: the values of the object
  literal, cast and validated path by path. \<open>None\<close> is the validation error that
  \<^verbatim>\<open>booking.save()\<close> throws. \<open>now\<close> is \<^verbatim>\<open>Date.now()\<close>, the default of \<open>createdAt\<close>.
\<close>

definition new_Booking ::
  "runtime \<Rightarrow> string \<Rightarrow> body \<Rightarrow> stored_file \<Rightarrow> stored_file \<Rightarrow> int \<Rightarrow> booking option" where
  "new_Booking rt bid b aadharPhotoFile licensePhotoFile now =
     do {
       v_bookingId \<leftarrow> required_String rt (JStr bid);
       v_name \<leftarrow> required_String rt (body_field b ''name'');
       v_contact \<leftarrow> required_String rt (body_field b ''contact'');
       v_aadhar \<leftarrow> required_String rt (body_field b ''aadhar'');
       v_aadharPhoto \<leftarrow> optional_String rt (JStr (''/uploads/'' @ filename aadharPhotoFile));
       v_license \<leftarrow> required_String rt (body_field b ''license'');
       v_licensePhoto \<leftarrow> optional_String rt (JStr (''/uploads/'' @ filename licensePhotoFile));
       v_pickup \<leftarrow> required_String rt (body_field b ''pickup'');
       v_drop \<leftarrow> required_String rt (body_field b ''drop'');
       v_pickupDate \<leftarrow> required_Date (new_Date rt (body_field b ''pickupDate''));
       v_returnDate \<leftarrow> required_Date (new_Date rt (body_field b ''returnDate''));
       v_paymentMode \<leftarrow> paymentMode_path rt (js_or (body_field b ''paymentMode'') (JStr ''UPI''));
       v_txnId \<leftarrow> optional_String rt (js_or (body_field b ''txnId'') JNull);
       Some \<lparr> bookingId = v_bookingId, name = v_name, contact = v_contact, aadhar = v_aadhar,
              aadharPhoto = v_aadharPhoto, license = v_license, licensePhoto = v_licensePhoto,
              pickup = v_pickup, drop' = v_drop, pickupDate = v_pickupDate,
              returnDate = v_returnDate, paymentMode = v_paymentMode, txnId = v_txnId,
              aadhaarVerified = (body_field b ''aadhaarVerified'' = JStr ''true''
                                  \<or> body_field b ''aadhaarVerified'' = JBool True),
              createdAt = now \<rparr>
     }"

text \<open>Lines 134-163: the id, the document, the save; whatever is thrown is answered 500.\<close>

definition create_booking ::
  "runtime \<Rightarrow> body \<Rightarrow> stored_file \<Rightarrow> stored_file \<Rightarrow> string \<Rightarrow> int \<Rightarrow> store
     \<Rightarrow> response \<times> store" where
  "create_booking rt b aadharPhotoFile licensePhotoFile token now st =
     (let bid = ''DH-'' @ token in
      case new_Booking rt bid b aadharPhotoFile licensePhotoFile now of
        None \<Rightarrow> (Response 500 (Error ''Server error''), st)
      | Some booking \<Rightarrow>
          (case save booking st of
             None \<Rightarrow> (Response 500 (Error ''Server error''), st)
           | Some st' \<Rightarrow> (Response 201 (Created bid booking), st')))"

text \<open>
  The route's handler. \<open>token\<close> is what \<^verbatim>\<open>shortid.generate()\<close> returns at line 134.
\<close>

definition post_handler ::
  "runtime \<Rightarrow> body \<Rightarrow> files option \<Rightarrow> string \<Rightarrow> int \<Rightarrow> store \<Rightarrow> response \<times> store" where
  "post_handler rt b fo token now st =
     (if missing_required b then (Response 400 (Error ''Missing required fields''), st)
      else if not_verified (body_field b ''aadhaarVerified'')
      then (Response 400 (Error ''Aadhaar must be verified before booking''), st)
      else
        (case (first_file fo ''aadharPhoto'', first_file fo ''licensePhoto'') of
           (Some aadharPhotoFile, Some licensePhotoFile) \<Rightarrow>
             create_booking rt b aadharPhotoFile licensePhotoFile token now st
         | _ \<Rightarrow> (Response 400 (Error ''Aadhaar and License photos are required''), st)))"

text \<open>The three rejections of the workflow, by the names the specification gives them.\<close>

definition MissingFields :: response where
  "MissingFields = Response 400 (Error ''Missing required fields'')"

definition VerificationRequired :: response where
  "VerificationRequired = Response 400 (Error ''Aadhaar must be verified before booking'')"

definition MissingDocuments :: response where
  "MissingDocuments = Response 400 (Error ''Aadhaar and License photos are required'')"

section \<open>The whole route: multer, then the handler\<close>

record request =
  body :: body
  multipart :: bool
  parts :: "upload list"
  token :: string
  now :: int

record state =
  store :: store
  disk :: disk

text \<open>
  multer runs on a multipart request only. An error of File Intake never reaches the
  handler: Express answers it with status 500.
\<close>

definition post_bookings :: "runtime \<Rightarrow> request \<Rightarrow> state \<Rightarrow> response \<times> state" where
  "post_bookings rt req s =
     (if multipart req then
        (case upload_fields rt (parts req) (disk s) of
           Inl (e, d) \<Rightarrow> (Response 500 (Unhandled e), s\<lparr>disk := d\<rparr>)
         | Inr (fs, d) \<Rightarrow>
             (case post_handler rt (body req) (Some (req_files fs)) (token req) (now req) (store s) of
                (r, st') \<Rightarrow> (r, \<lparr>store = st', disk = d\<rparr>)))
      else
        (case post_handler rt (body req) None (token req) (now req) (store s) of
           (r, st') \<Rightarrow> (r, s\<lparr>store := st'\<rparr>)))"

text \<open>The route answering one request after another, each on the state the one before
  it left.\<close>

fun serve :: "runtime \<Rightarrow> request list \<Rightarrow> state \<Rightarrow> response list \<times> state" where
  "serve rt [] s = ([], s)"
| "serve rt (req # reqs) s =
     (case post_bookings rt req s of
        (r, s') \<Rightarrow> (case serve rt reqs s' of (rs, s'') \<Rightarrow> (r # rs, s'')))"

section \<open>The read routes (lines 168-188)\<close>

definition get_booking :: "string \<Rightarrow> store \<Rightarrow> response" where
  "get_booking bid st =
     (case findOne bid st of
        None \<Rightarrow> Response 404 (Error ''Booking not found'')
      | Some b \<Rightarrow> Response 200 (Booking b))"

text \<open>\<^verbatim>\<open>Booking.find().sort({ createdAt: -1 }).limit(200)\<close> (line 182)\<close>

definition listRecent :: "store \<Rightarrow> booking list" where
  "listRecent st = take 200 (sort_createdAt_desc st)"

text \<open>The handler never reads its request: whatever the caller asks for, the query is
  the one above.\<close>

definition list_bookings :: "body \<Rightarrow> store \<Rightarrow> response" where
  "list_bookings query st = Response 200 (Bookings (listRecent st))"

text \<open>The booking and the \<open>bookingId\<close> a response carries, when it is the answer to a
  creation; the ids a sequence of answers carries.\<close>

definition created :: "response \<Rightarrow> booking option" where
  "created r = (case payload r of Created bid b \<Rightarrow> Some b | _ \<Rightarrow> None)"

definition created_id :: "response \<Rightarrow> string option" where
  "created_id r = (case payload r of Created bid b \<Rightarrow> Some bid | _ \<Rightarrow> None)"

definition created_ids :: "response list \<Rightarrow> string list" where
  "created_ids rs = List.map_filter created_id rs"

section \<open>A concrete submission\<close>

text \<open>
  The example of the specification: the form
  \<^verbatim>\<open>{name:"A", contact:"9999999999", aadhar:"1234", license:"LIC1", pickup:"X", drop:"Y",
  pickupDate:"2024-01-01", returnDate:"2024-01-05"}\<close>, verified, with two small JPEG
  parts. The runtime is given on what the example needs: the two dates as UTC
  midnights in milliseconds, the extension of a plain file name, and numbers in
  decimal.
\<close>

definition example_runtime :: runtime where
  "example_runtime =
     \<lparr> new_Date = (\<lambda>v. if v = JStr ''2024-01-01'' then Some 1704067200000
                        else if v = JStr ''2024-01-05'' then Some 1704412800000 else None),
       extname = (\<lambda>nm. if CHR ''.'' \<in> set nm
                         then CHR ''.'' # rev (takeWhile (\<lambda>c. c \<noteq> CHR ''.'') (rev nm))
                         else []),
       Number_toString = decimal \<rparr>"

definition example_body :: body where
  "example_body =
     [''name'' \<mapsto> JStr ''A'', ''contact'' \<mapsto> JStr ''9999999999'', ''aadhar'' \<mapsto> JStr ''1234'',
      ''license'' \<mapsto> JStr ''LIC1'', ''pickup'' \<mapsto> JStr ''X'', ''drop'' \<mapsto> JStr ''Y'',
      ''pickupDate'' \<mapsto> JStr ''2024-01-01'', ''returnDate'' \<mapsto> JStr ''2024-01-05'',
      ''aadhaarVerified'' \<mapsto> JStr ''true'']"

definition aadhar_jpg :: upload where
  "aadhar_jpg =
     \<lparr> fieldname = ''aadharPhoto'', originalname = ''aadhar.jpg'', mimetype = ''image/jpeg'',
       size' = 20480, stamp = 1704067200000, tok = ''f1'' \<rparr>"

definition license_jpg :: upload where
  "license_jpg =
     \<lparr> fieldname = ''licensePhoto'', originalname = ''license.jpg'', mimetype = ''image/jpeg'',
       size' = 30720, stamp = 1704067200001, tok = ''f2'' \<rparr>"

definition example_files :: files where
  "example_files = req_files [stored example_runtime aadhar_jpg, stored example_runtime license_jpg]"

definition example_request :: request where
  "example_request =
     \<lparr> body = example_body, multipart = True, parts = [aadhar_jpg, license_jpg],
       token = ''tok'', now = 1704067200002 \<rparr>"

text \<open>The document the example creates.\<close>

definition example_booking :: booking where
  "example_booking =
     \<lparr> bookingId = ''DH-tok'', name = ''A'', contact = ''9999999999'', aadhar = ''1234'',
       aadharPhoto = Some ''/uploads/1704067200000-f1.jpg'', license = ''LIC1'',
       licensePhoto = Some ''/uploads/1704067200001-f2.jpg'', pickup = ''X'', drop' = ''Y'',
       pickupDate = 1704067200000, returnDate = 1704412800000, paymentMode = ''UPI'',
       txnId = None, aadhaarVerified = True, createdAt = 1704067200002 \<rparr>"

text \<open>Two parts File Intake refuses: a PDF of 6 MiB, and a JPEG one byte over the limit.
  A third is the part of a file input left empty: no file name, no bytes.\<close>

definition no_file :: upload where
  "no_file =
     \<lparr> fieldname = ''licensePhoto'', originalname = [], mimetype = ''application/octet-stream'',
       size' = 0, stamp = 1704067200001, tok = ''f2'' \<rparr>"



text \<open>Three requests in a row: the example, the example again under the same token, and
  the example under another token a millisecond later; the record the third creates.\<close>

definition example_run :: "request list" where
  "example_run =
     [example_request, example_request,
      example_request\<lparr>token := ''tok2'', now := 1704067200003\<rparr>]"

definition example_booking2 :: booking where
  "example_booking2 = example_booking\<lparr>bookingId := ''DH-tok2'', createdAt := 1704067200003\<rparr>"

definition empty_state :: state where
  "empty_state = \<lparr>store = [], disk = Map.empty\<rparr>"

section \<open>Evaluating the concrete submission\<close>

lemma body_field_example [simp]:
  "body_field example_body ''name'' = JStr ''A''"
  "body_field example_body ''contact'' = JStr ''9999999999''"
  "body_field example_body ''aadhar'' = JStr ''1234''"
  "body_field example_body ''license'' = JStr ''LIC1''"
  "body_field example_body ''pickup'' = JStr ''X''"
  "body_field example_body ''drop'' = JStr ''Y''"
  "body_field example_body ''pickupDate'' = JStr ''2024-01-01''"
  "body_field example_body ''returnDate'' = JStr ''2024-01-05''"
  "body_field example_body ''aadhaarVerified'' = JStr ''true''"
  "body_field example_body ''paymentMode'' = JUndefined"
  "body_field example_body ''txnId'' = JUndefined"
  by (simp_all add: body_field_def example_body_def)

lemma body_field_upd [simp]:
  "body_field (b(k \<mapsto> v)) k' = (if k' = k then v else body_field b k')"
  "body_field (b(k := None)) k' = (if k' = k then JUndefined else body_field b k')"
  by (simp_all add: body_field_def)

lemma example_passes_required: "\<not> missing_required example_body"
  by (simp add: missing_required_def)

lemma example_verified: "\<not> not_verified (body_field example_body ''aadhaarVerified'')"
  by (simp add: not_verified_def)

lemma stored_filename [simp]: "filename (stored rt file) = storage_filename rt file"
  by (simp add: stored_def upload.extend_def stored_file.fields_def)

lemma stored_fieldname [simp]: "fieldname (stored rt file) = fieldname file"
  by (simp add: stored_def upload.extend_def stored_file.fields_def)

lemma example_filenames [simp]:
  "storage_filename example_runtime aadhar_jpg = ''1704067200000-f1.jpg''"
  "storage_filename example_runtime license_jpg = ''1704067200001-f2.jpg''"
  by (simp_all add: storage_filename_def example_runtime_def aadhar_jpg_def license_jpg_def
      decimal_def decimal_nat.simps digit_def)

lemma first_file_req_files:
  "first_file (Some (req_files fs)) slot = find (\<lambda>f. fieldname f = slot) fs"
  by (induction fs) (auto simp: first_file_def req_files_def split: list.splits option.splits)

lemma example_first_file [simp]:
  "first_file (Some example_files) ''aadharPhoto'' = Some (stored example_runtime aadhar_jpg)"
  "first_file (Some example_files) ''licensePhoto'' = Some (stored example_runtime license_jpg)"
  by (simp_all add: first_file_req_files example_files_def aadhar_jpg_def license_jpg_def)

section \<open>The three gates\<close>

text \<open>
  C1. A submission in which one of the text fields name, contact, aadhar, license,
  pickup, drop, pickupDate, returnDate is absent or the empty string is answered by the
  handler with MissingFields, status 400, and the store is returned as it was: no
  booking is created. This holds whatever the files, the verification flag and the
  other fields are.
\<close>

theorem missing_fields_rejected:
  assumes "k \<in> {''name'', ''contact'', ''aadhar'', ''license'', ''pickup'', ''drop'',
                 ''pickupDate'', ''returnDate''}"
      and "b k = None \<or> b k = Some (JStr [])"
    shows "post_handler rt b fo tk t st = (MissingFields, st) \<and> status MissingFields = 400"
proof -
  from assms(2) have "\<not> truthy (body_field b k)"
    by (auto simp: body_field_def)
  with assms(1) have "missing_required b"
    unfolding missing_required_def by auto
  then show ?thesis
    by (simp add: post_handler_def MissingFields_def)
qed

theorem missing_fields_rejected_witness:
  "post_handler example_runtime (example_body(''license'' \<mapsto> JStr [])) (Some example_files)
       ''tok'' 1704067200002 []
     = (MissingFields, [])
   \<and> status MissingFields = 400"
  by (rule missing_fields_rejected [where k = "''license''"]) simp_all

lemma create_booking_status:
  "fst (create_booking rt b af lf tk t st) \<noteq> Response 400 e"
  by (simp add: create_booking_def Let_def split: option.splits)

text \<open>
  C2. For a submission that passes the required-field gate, the handler answers
  VerificationRequired (status 400) exactly when the flag aadhaarVerified is neither
  the boolean true nor the string "true": an absent flag, false, and every other value
  are rejected, and the two accepted values are treated alike.
\<close>

theorem verification_required_iff:
  assumes "\<not> missing_required b"
  shows "(fst (post_handler rt b fo tk t st) = VerificationRequired)
           = (body_field b ''aadhaarVerified'' \<noteq> JBool True
              \<and> body_field b ''aadhaarVerified'' \<noteq> JStr ''true'')
         \<and> status VerificationRequired = 400"
proof -
  let ?v = "body_field b ''aadhaarVerified''"
  have nv: "not_verified ?v = (?v \<noteq> JBool True \<and> ?v \<noteq> JStr ''true'')"
    by (cases ?v) (auto simp: not_verified_def)
  show ?thesis
  proof (cases "not_verified ?v")
    case True
    with assms nv show ?thesis
      by (simp add: post_handler_def VerificationRequired_def)
  next
    case False
    with assms have "fst (post_handler rt b fo tk t st) \<noteq> VerificationRequired"
      by (auto simp: post_handler_def VerificationRequired_def create_booking_status
          split: option.splits)
    with False nv show ?thesis
      by (simp add: VerificationRequired_def)
  qed
qed

theorem verification_required_iff_witness:
  "(fst (post_handler example_runtime (example_body(''aadhaarVerified'' \<mapsto> JStr ''yes''))
           (Some example_files) ''tok'' 1704067200002 []) = VerificationRequired)
   \<and> (fst (post_handler example_runtime (example_body(''aadhaarVerified'' \<mapsto> JBool True))
           (Some example_files) ''tok'' 1704067200002 []) \<noteq> VerificationRequired)
   \<and> (fst (post_handler example_runtime example_body
           (Some example_files) ''tok'' 1704067200002 []) \<noteq> VerificationRequired)"
proof -
  have 1: "\<not> missing_required (example_body(''aadhaarVerified'' \<mapsto> JStr ''yes''))"
    and 2: "\<not> missing_required (example_body(''aadhaarVerified'' \<mapsto> JBool True))"
    by (simp_all add: missing_required_def)
  show ?thesis
    using verification_required_iff [OF 1] verification_required_iff [OF 2]
      verification_required_iff [OF example_passes_required]
    by simp
qed

text \<open>
  C3. For a submission that passes the required-field gate and the verification gate,
  if the handler finds no file in the slot aadharPhoto or none in the slot licensePhoto
  (File Intake filled no such slot, or the request was not multipart), it answers
  MissingDocuments, status 400, and the store is returned as it was.
\<close>

theorem missing_documents_rejected:
  assumes "\<not> missing_required b"
      and "\<not> not_verified (body_field b ''aadhaarVerified'')"
      and "first_file fo ''aadharPhoto'' = None \<or> first_file fo ''licensePhoto'' = None"
    shows "post_handler rt b fo tk t st = (MissingDocuments, st) \<and> status MissingDocuments = 400"
  using assms by (auto simp: post_handler_def MissingDocuments_def split: option.splits)

theorem missing_documents_rejected_witness:
  "post_handler example_runtime example_body
       (Some (req_files [stored example_runtime aadhar_jpg])) ''tok'' 1704067200002 []
     = (MissingDocuments, [])
   \<and> post_handler example_runtime example_body None ''tok'' 1704067200002 []
     = (MissingDocuments, [])"
proof -
  have "first_file (Some (req_files [stored example_runtime aadhar_jpg])) ''licensePhoto'' = None"
    by (simp add: first_file_req_files aadhar_jpg_def)
  moreover have "first_file None ''aadharPhoto'' = None"
    by (simp add: first_file_def)
  ultimately show ?thesis
    using missing_documents_rejected [OF example_passes_required example_verified]
    by simp
qed

section \<open>What the schema makes of the submitted values\<close>

lemma text_of_JStr [simp]: "text_of rt (JStr s) = Some s"
  by (simp add: text_of_def)

lemma text_of_id [simp]:
  "text_of rt (JObj [(''_id'', JStr s)]) = (if s = [] then None else Some s)"
  by (simp add: text_of_def get_prop_def)

lemma required_String_Some:
  "required_String rt v = Some s \<Longrightarrow> text_of rt v = Some s \<and> s \<noteq> []"
  by (auto simp: required_String_def text_of_def split: casted.splits if_splits)

lemma required_Date_Some: "required_Date d = Some t \<Longrightarrow> d = Some t"
  by (cases d) (auto simp: required_Date_def)

lemma optional_String_JStr [simp]: "optional_String rt (JStr s) = Some (Some s)"
  by (simp add: optional_String_def)

lemma truthy_cast: "truthy v \<Longrightarrow> cast_String rt v \<noteq> Nothing"
  by (cases v) (auto split: jsval.splits)

lemma paymentMode_path_Some:
  assumes "paymentMode_path rt (js_or v (JStr ''UPI'')) = Some m"
  shows "(if truthy v then text_of rt v = Some m else m = ''UPI'')
         \<and> (m = ''UPI'' \<or> m = ''Cash'')"
proof (cases "truthy v")
  case False
  with assms show ?thesis
    by (simp add: js_or_def paymentMode_path_def)
next
  case True
  with assms truthy_cast [OF True, of rt] show ?thesis
    by (auto simp: js_or_def paymentMode_path_def text_of_def split: casted.splits if_splits)
qed

lemma optional_txnId_Some:
  assumes "optional_String rt (js_or v JNull) = Some x"
  shows "x = (if truthy v then text_of rt v else None)"
proof (cases "truthy v")
  case False
  with assms show ?thesis
    by (simp add: js_or_def optional_String_def)
next
  case True
  with assms show ?thesis
    by (auto simp: js_or_def optional_String_def text_of_def split: casted.splits)
qed

lemma optional_txnId_present:
  assumes "optional_String rt (js_or v JNull) = Some x"
  shows "(x \<noteq> None) = truthy v"
proof (cases "truthy v")
  case False
  with assms show ?thesis
    by (simp add: js_or_def optional_String_def)
next
  case True
  with assms truthy_cast [OF True, of rt] show ?thesis
    by (auto simp: js_or_def optional_String_def split: casted.splits)
qed

lemma new_Booking_Some:
  assumes "new_Booking rt bid b af lf t = Some bk"
  shows "bookingId bk = bid"
    and "text_of rt (body_field b ''name'') = Some (name bk)"
    and "text_of rt (body_field b ''contact'') = Some (contact bk)"
    and "text_of rt (body_field b ''aadhar'') = Some (aadhar bk)"
    and "text_of rt (body_field b ''license'') = Some (license bk)"
    and "text_of rt (body_field b ''pickup'') = Some (pickup bk)"
    and "text_of rt (body_field b ''drop'') = Some (drop' bk)"
    and "aadharPhoto bk = Some (''/uploads/'' @ filename af)"
    and "licensePhoto bk = Some (''/uploads/'' @ filename lf)"
    and "new_Date rt (body_field b ''pickupDate'') = Some (pickupDate bk)"
    and "new_Date rt (body_field b ''returnDate'') = Some (returnDate bk)"
    and "paymentMode_path rt (js_or (body_field b ''paymentMode'') (JStr ''UPI''))
         = Some (paymentMode bk)"
    and "optional_String rt (js_or (body_field b ''txnId'') JNull) = Some (txnId bk)"
    and "aadhaarVerified bk = (body_field b ''aadhaarVerified'' = JStr ''true''
                                \<or> body_field b ''aadhaarVerified'' = JBool True)"
    and "createdAt bk = t"
  using assms unfolding new_Booking_def
  by (auto simp: bind_eq_Some_conv dest!: required_String_Some required_Date_Some)

section \<open>What the handler answers\<close>

lemma create_booking_cases:
  "create_booking rt b af lf tk t st = (Response 500 (Error ''Server error''), st)
   \<or> (\<exists>bk. create_booking rt b af lf tk t st = (Response 201 (Created (''DH-'' @ tk) bk), st @ [bk])
            \<and> new_Booking rt (''DH-'' @ tk) b af lf t = Some bk
            \<and> bookingId bk \<notin> set (map bookingId st))"
  by (auto simp: create_booking_def Let_def save_def split: option.splits)

lemma post_handler_Created:
  assumes "post_handler rt b fo tk t st = (Response 201 (Created bid bk), st')"
  obtains af lf where "\<not> missing_required b"
    and "\<not> not_verified (body_field b ''aadhaarVerified'')"
    and "first_file fo ''aadharPhoto'' = Some af"
    and "first_file fo ''licensePhoto'' = Some lf"
    and "bid = ''DH-'' @ tk"
    and "new_Booking rt bid b af lf t = Some bk"
    and "bookingId bk \<notin> set (map bookingId st)"
    and "st' = st @ [bk]"
proof -
  from assms have g: "\<not> missing_required b" "\<not> not_verified (body_field b ''aadhaarVerified'')"
    by (auto simp: post_handler_def split: if_splits)
  with assms obtain af lf where f: "first_file fo ''aadharPhoto'' = Some af"
      "first_file fo ''licensePhoto'' = Some lf"
    and c: "create_booking rt b af lf tk t st = (Response 201 (Created bid bk), st')"
    by (auto simp: post_handler_def split: option.splits)
  from c create_booking_cases [of rt b af lf tk t st]
  have "bid = ''DH-'' @ tk \<and> new_Booking rt bid b af lf t = Some bk
        \<and> bookingId bk \<notin> set (map bookingId st) \<and> st' = st @ [bk]"
    by auto
  with g f that show thesis
    by blast
qed

text \<open>Every answer of the handler is an error that leaves the store as it was, or a
  creation.\<close>

lemma post_handler_cases:
  "(\<exists>c e. post_handler rt b fo tk t st = (Response c (Error e), st))
   \<or> (\<exists>bk. post_handler rt b fo tk t st = (Response 201 (Created (''DH-'' @ tk) bk), st @ [bk])
            \<and> bookingId bk = ''DH-'' @ tk \<and> ''DH-'' @ tk \<notin> set (map bookingId st))"
proof (cases "missing_required b \<or> not_verified (body_field b ''aadhaarVerified'')")
  case True
  then show ?thesis by (auto simp: post_handler_def)
next
  case False
  show ?thesis
  proof (cases "\<exists>af lf. first_file fo ''aadharPhoto'' = Some af
                  \<and> first_file fo ''licensePhoto'' = Some lf")
    case no: False
    with False have "post_handler rt b fo tk t st
        = (Response 400 (Error ''Aadhaar and License photos are required''), st)"
      by (auto simp: post_handler_def split: option.splits)
    then show ?thesis by blast
  next
    case True
    then obtain af lf where f: "first_file fo ''aadharPhoto'' = Some af"
        "first_file fo ''licensePhoto'' = Some lf"
      by blast
    with False have ph: "post_handler rt b fo tk t st = create_booking rt b af lf tk t st"
      by (simp add: post_handler_def)
    from create_booking_cases [of rt b af lf tk t st] show ?thesis
    proof
      assume "create_booking rt b af lf tk t st = (Response 500 (Error ''Server error''), st)"
      with ph show ?thesis by simp
    next
      assume "\<exists>bk. create_booking rt b af lf tk t st
                   = (Response 201 (Created (''DH-'' @ tk) bk), st @ [bk])
              \<and> new_Booking rt (''DH-'' @ tk) b af lf t = Some bk
              \<and> bookingId bk \<notin> set (map bookingId st)"
      then obtain bk where c: "create_booking rt b af lf tk t st
                   = (Response 201 (Created (''DH-'' @ tk) bk), st @ [bk])"
        and n: "new_Booking rt (''DH-'' @ tk) b af lf t = Some bk"
        and u: "bookingId bk \<notin> set (map bookingId st)"
        by blast
      from new_Booking_Some(1) [OF n] c u ph show ?thesis
        by auto
    qed
  qed
qed

lemma created_id_simps [simp]:
  "created_id (Response c (Error e)) = None"
  "created_id (Response c (Unhandled x)) = None"
  "created_id (Response c (Created bid bk)) = Some bid"
  by (simp_all add: created_id_def)

text \<open>A submission that draws an id the store holds is not accepted.\<close>

lemma post_handler_collision:
  assumes "''DH-'' @ tk \<in> set (map bookingId st)"
  shows "created_id (fst (post_handler rt b fo tk t st)) = None
         \<and> snd (post_handler rt b fo tk t st) = st"
  using post_handler_cases [of rt b fo tk t st] assms by auto

section \<open>The route on a sequence of requests\<close>

lemma post_bookings_cases:
  "(created_id (fst (post_bookings rt req s)) = None
      \<and> store (snd (post_bookings rt req s)) = store s)
   \<or> (\<exists>bk. fst (post_bookings rt req s) = Response 201 (Created (bookingId bk) bk)
            \<and> store (snd (post_bookings rt req s)) = store s @ [bk]
            \<and> bookingId bk \<notin> set (map bookingId (store s)))"
proof (cases "multipart req")
  case False
  with post_handler_cases [of rt "body req" None "token req" "now req" "store s"]
  show ?thesis
    by (auto simp: post_bookings_def)
next
  case True
  show ?thesis
  proof (cases "upload_fields rt (parts req) (disk s)")
    case (Inl a)
    with True show ?thesis
      by (cases a) (simp add: post_bookings_def)
  next
    case (Inr a)
    obtain fs d where a: "a = (fs, d)" by (cases a)
    with Inr True
      post_handler_cases [of rt "body req" "Some (req_files fs)" "token req" "now req" "store s"]
    show ?thesis
      by (auto simp: post_bookings_def)
  qed
qed

lemma created_ids_Cons:
  "created_ids (r # rs) = (case created_id r of None \<Rightarrow> created_ids rs | Some i \<Rightarrow> i # created_ids rs)"
  by (simp add: created_ids_def split: option.splits)

lemma serve_store:
  "\<exists>news. store (snd (serve rt reqs s)) = store s @ news
          \<and> map bookingId news = created_ids (fst (serve rt reqs s))
          \<and> distinct (created_ids (fst (serve rt reqs s)))
          \<and> set (created_ids (fst (serve rt reqs s))) \<inter> set (map bookingId (store s)) = {}"
proof (induction reqs arbitrary: s)
  case Nil
  then show ?case by (simp add: created_ids_def)
next
  case (Cons req reqs)
  obtain r s1 where p: "post_bookings rt req s = (r, s1)"
    by (cases "post_bookings rt req s")
  obtain rs s2 where q: "serve rt reqs s1 = (rs, s2)"
    by (cases "serve rt reqs s1")
  from Cons.IH [of s1] q obtain news where n: "store s2 = store s1 @ news"
    "map bookingId news = created_ids rs" "distinct (created_ids rs)"
    "set (created_ids rs) \<inter> set (map bookingId (store s1)) = {}"
    by auto
  have sv: "serve rt (req # reqs) s = (r # rs, s2)"
    by (simp add: p q)
  from post_bookings_cases [of rt req s] p
  consider "created_id r = None" "store s1 = store s"
    | bk where "r = Response 201 (Created (bookingId bk) bk)" "store s1 = store s @ [bk]"
        "bookingId bk \<notin> set (map bookingId (store s))"
    by auto
  then show ?case
  proof cases
    case 1
    with n sv show ?thesis
      by (simp add: created_ids_Cons)
  next
    case 2
    with n have "store s2 = store s @ (bk # news)"
      "map bookingId (bk # news) = created_ids (r # rs)"
      "distinct (created_ids (r # rs))"
      "set (created_ids (r # rs)) \<inter> set (map bookingId (store s)) = {}"
      by (auto simp: created_ids_Cons)
    with sv show ?thesis
      by (metis fst_conv snd_conv)
  qed
qed

lemma findOne_append:
  "findOne bid st = Some bk \<Longrightarrow> findOne bid (st @ later) = Some bk"
  unfolding findOne_def by (induction st) auto

lemma findOne_last:
  "bookingId bk \<notin> set (map bookingId st) \<Longrightarrow> findOne (bookingId bk) (st @ [bk]) = Some bk"
  unfolding findOne_def by (induction st) auto

lemma findOne_other:
  "bid \<noteq> bookingId bk \<Longrightarrow> findOne bid (st @ [bk]) = findOne bid st"
  unfolding findOne_def by (induction st) auto

section \<open>Evaluating the example\<close>

lemma required_String_JStr [simp]:
  "required_String rt (JStr s) = (if s = [] then None else Some s)"
  by (simp add: required_String_def)

lemma example_new_Date [simp]:
  "new_Date example_runtime (JStr ''2024-01-01'') = Some 1704067200000"
  "new_Date example_runtime (JStr ''2024-01-05'') = Some 1704412800000"
  by (simp_all add: example_runtime_def)

lemma new_Booking_example:
  assumes "paymentMode_path example_runtime (js_or (body_field b ''paymentMode'') (JStr ''UPI''))
           = Some m"
    and "optional_String example_runtime (js_or (body_field b ''txnId'') JNull) = Some x"
    and "\<And>k. k \<noteq> ''paymentMode'' \<Longrightarrow> k \<noteq> ''txnId'' \<Longrightarrow> body_field b k = body_field example_body k"
  shows "new_Booking example_runtime (''DH-'' @ tk) b (stored example_runtime aadhar_jpg)
           (stored example_runtime license_jpg) t
         = Some (example_booking\<lparr>bookingId := ''DH-'' @ tk, paymentMode := m, txnId := x,
                                 createdAt := t\<rparr>)"
  using assms(1,2) by (simp add: new_Booking_def assms(3) example_booking_def required_Date_def)

lemma example_created_with:
  assumes "paymentMode_path example_runtime (js_or pm (JStr ''UPI'')) = Some m"
      and "optional_String example_runtime (js_or tx JNull) = Some x"
  shows "post_handler example_runtime (example_body(''paymentMode'' \<mapsto> pm, ''txnId'' \<mapsto> tx))
           (Some example_files) ''tok'' 1704067200002 []
         = (Response 201 (Created ''DH-tok'' (example_booking\<lparr>paymentMode := m, txnId := x\<rparr>)),
            [example_booking\<lparr>paymentMode := m, txnId := x\<rparr>])"
proof -
  let ?b = "example_body(''paymentMode'' \<mapsto> pm, ''txnId'' \<mapsto> tx)"
  have "new_Booking example_runtime (''DH-'' @ ''tok'') ?b (stored example_runtime aadhar_jpg)
           (stored example_runtime license_jpg) 1704067200002
         = Some (example_booking\<lparr>bookingId := ''DH-'' @ ''tok'', paymentMode := m, txnId := x,
                                 createdAt := 1704067200002\<rparr>)"
    by (rule new_Booking_example) (simp_all add: assms)
  moreover have "example_booking\<lparr>bookingId := ''DH-'' @ ''tok'', paymentMode := m, txnId := x,
                                 createdAt := 1704067200002\<rparr>
                 = example_booking\<lparr>paymentMode := m, txnId := x\<rparr>"
    by (simp add: example_booking_def)
  moreover have "\<not> missing_required ?b"
    by (simp add: missing_required_def)
  ultimately show ?thesis
    by (simp add: post_handler_def not_verified_def create_booking_def Let_def save_def)
qed

text \<open>The example on any store, under any token and at any time.\<close>

lemma example_post_handler:
  "post_handler example_runtime example_body (Some example_files) tk t st
   = (if ''DH-'' @ tk \<in> set (map bookingId st) then (Response 500 (Error ''Server error''), st)
      else (Response 201 (Created (''DH-'' @ tk)
                (example_booking\<lparr>bookingId := ''DH-'' @ tk, createdAt := t\<rparr>)),
            st @ [example_booking\<lparr>bookingId := ''DH-'' @ tk, createdAt := t\<rparr>]))"
proof -
  have "new_Booking example_runtime (''DH-'' @ tk) example_body (stored example_runtime aadhar_jpg)
           (stored example_runtime license_jpg) t
         = Some (example_booking\<lparr>bookingId := ''DH-'' @ tk, paymentMode := ''UPI'', txnId := None,
                                 createdAt := t\<rparr>)"
    by (rule new_Booking_example) (simp_all add: js_or_def paymentMode_path_def optional_String_def)
  moreover have "example_booking\<lparr>bookingId := ''DH-'' @ tk, paymentMode := ''UPI'', txnId := None,
                                 createdAt := t\<rparr>
                 = example_booking\<lparr>bookingId := ''DH-'' @ tk, createdAt := t\<rparr>"
    by (simp add: example_booking_def)
  ultimately show ?thesis
    by (simp add: post_handler_def example_passes_required not_verified_def create_booking_def
        Let_def save_def)
qed

lemma example_created:
  "post_handler example_runtime example_body (Some example_files) ''tok'' 1704067200002 []
   = (Response 201 (Created ''DH-tok'' example_booking), [example_booking])"
proof -
  have "example_booking\<lparr>bookingId := ''DH-'' @ ''tok'', createdAt := 1704067200002\<rparr>
        = example_booking"
    by (simp add: example_booking_def)
  with example_post_handler [of "''tok''" 1704067200002 "[]"] show ?thesis
    by simp
qed

lemma example_parts [simp]:
  "prefix ''image/'' (mimetype aadhar_jpg)" "\<not> fileSize < size' aadhar_jpg"
  "fieldname aadhar_jpg = ''aadharPhoto''" "originalname aadhar_jpg \<noteq> []"
  "prefix ''image/'' (mimetype license_jpg)" "\<not> fileSize < size' license_jpg"
  "fieldname license_jpg = ''licensePhoto''" "originalname license_jpg \<noteq> []"
  by (simp_all add: aadhar_jpg_def license_jpg_def fileSize_def)

lemma accept_ok:
  "prefix ''image/'' (mimetype f) \<Longrightarrow> \<not> fileSize < size' f
   \<Longrightarrow> accept rt f d = Inr (stored rt f, d(storage_filename rt f \<mapsto> f))"
  by (simp add: accept_def fileFilter_def Let_def)

lemma example_upload_fields:
  "upload_fields example_runtime [aadhar_jpg, license_jpg] d
   = Inr ([stored example_runtime aadhar_jpg, stored example_runtime license_jpg],
          d(''1704067200000-f1.jpg'' \<mapsto> aadhar_jpg, ''1704067200001-f2.jpg'' \<mapsto> license_jpg))"
  by (simp add: upload_fields_def filesLeft0_def accept_ok)

lemma example_post_bookings:
  assumes "body req = example_body" "multipart req" "parts req = [aadhar_jpg, license_jpg]"
  shows "post_bookings example_runtime req s
         = (if ''DH-'' @ token req \<in> set (map bookingId (store s))
            then (Response 500 (Error ''Server error''),
                  \<lparr>store = store s,
                   disk = (disk s)(''1704067200000-f1.jpg'' \<mapsto> aadhar_jpg,
                                   ''1704067200001-f2.jpg'' \<mapsto> license_jpg)\<rparr>)
            else (Response 201 (Created (''DH-'' @ token req)
                      (example_booking\<lparr>bookingId := ''DH-'' @ token req, createdAt := now req\<rparr>)),
                  \<lparr>store = store s
                     @ [example_booking\<lparr>bookingId := ''DH-'' @ token req, createdAt := now req\<rparr>],
                   disk = (disk s)(''1704067200000-f1.jpg'' \<mapsto> aadhar_jpg,
                                   ''1704067200001-f2.jpg'' \<mapsto> license_jpg)\<rparr>))"
proof -
  have "req_files [stored example_runtime aadhar_jpg, stored example_runtime license_jpg]
        = example_files"
    by (simp add: example_files_def)
  then show ?thesis
    by (simp add: post_bookings_def assms example_upload_fields example_post_handler)
qed

lemma example_run_answers:
  "fst (serve example_runtime example_run empty_state)
   = [Response 201 (Created ''DH-tok'' example_booking),
      Response 500 (Error ''Server error''),
      Response 201 (Created ''DH-tok2'' example_booking2)]"
  "store (snd (serve example_runtime example_run empty_state))
   = [example_booking, example_booking2]"
proof -
  have r: "body example_request = example_body" "multipart example_request"
    "parts example_request = [aadhar_jpg, license_jpg]" "token example_request = ''tok''"
    "now example_request = 1704067200002"
    by (simp_all add: example_request_def)
  have b: "example_booking\<lparr>bookingId := ''DH-tok'', createdAt := 1704067200002\<rparr> = example_booking"
    "bookingId example_booking = ''DH-tok''"
    by (simp_all add: example_booking_def)
  show "fst (serve example_runtime example_run empty_state)
   = [Response 201 (Created ''DH-tok'' example_booking),
      Response 500 (Error ''Server error''),
      Response 201 (Created ''DH-tok2'' example_booking2)]"
    by (simp add: example_run_def empty_state_def example_post_bookings r b example_booking2_def)
  show "store (snd (serve example_runtime example_run empty_state))
   = [example_booking, example_booking2]"
    by (simp add: example_run_def empty_state_def example_post_bookings r b example_booking2_def)
qed

text \<open>A form field named \<^verbatim>\<open>paymentMode[_id]\<close> reaches the handler as an object; the
  schema stores its \<^verbatim>\<open>_id\<close>.\<close>

lemma example_id_paymentMode:
  "post_handler example_runtime
     (example_body(''paymentMode'' \<mapsto> JObj [(''_id'', JStr ''Cash'')], ''txnId'' \<mapsto> JUndefined))
     (Some example_files) ''tok'' 1704067200002 []
   = (Response 201 (Created ''DH-tok'' (example_booking\<lparr>paymentMode := ''Cash'', txnId := None\<rparr>)),
      [example_booking\<lparr>paymentMode := ''Cash'', txnId := None\<rparr>])"
  by (rule example_created_with)
    (simp_all add: js_or_def paymentMode_path_def optional_String_def get_prop_def)

section \<open>The committed record\<close>

text \<open>
  C4, as amended. A submission that passes the three gates is either answered 500 with
  the store as it was (the dates do not parse, a value cannot be cast, the payment mode
  is not one of the schema's, the id is taken), or one record is appended to the
  store, and that record has pickupDate and returnDate as the Date constructor reads
  them from the submitted values; paymentMode the text the schema's String cast keeps
  of the submitted value (a submitted string itself; the _id of a submitted object with
  a string _id), or UPI when the submitted value is absent or empty (any falsy value);
  txnId the text of the submitted value in the same sense, or null when that is absent
  or empty; and the verified flag true.
\<close>

theorem committed_record_normalized:
  assumes "\<not> missing_required b"
      and "\<not> not_verified (body_field b ''aadhaarVerified'')"
      and "first_file fo ''aadharPhoto'' = Some af"
      and "first_file fo ''licensePhoto'' = Some lf"
  shows "post_handler rt b fo tk t st = (Response 500 (Error ''Server error''), st)
       \<or> (\<exists>bk. post_handler rt b fo tk t st = (Response 201 (Created (''DH-'' @ tk) bk), st @ [bk])
            \<and> new_Date rt (body_field b ''pickupDate'') = Some (pickupDate bk)
            \<and> new_Date rt (body_field b ''returnDate'') = Some (returnDate bk)
            \<and> (if truthy (body_field b ''paymentMode'')
                then text_of rt (body_field b ''paymentMode'') = Some (paymentMode bk)
                else paymentMode bk = ''UPI'')
            \<and> txnId bk = (if truthy (body_field b ''txnId'')
                           then text_of rt (body_field b ''txnId'') else None)
            \<and> aadhaarVerified bk)"
proof -
  from assms have ph: "post_handler rt b fo tk t st = create_booking rt b af lf tk t st"
    by (simp add: post_handler_def)
  from create_booking_cases [of rt b af lf tk t st] show ?thesis
  proof
    assume "create_booking rt b af lf tk t st = (Response 500 (Error ''Server error''), st)"
    with ph show ?thesis by simp
  next
    assume "\<exists>bk. create_booking rt b af lf tk t st
                   = (Response 201 (Created (''DH-'' @ tk) bk), st @ [bk])
              \<and> new_Booking rt (''DH-'' @ tk) b af lf t = Some bk
              \<and> bookingId bk \<notin> set (map bookingId st)"
    then obtain bk where c: "create_booking rt b af lf tk t st
                   = (Response 201 (Created (''DH-'' @ tk) bk), st @ [bk])"
      and n: "new_Booking rt (''DH-'' @ tk) b af lf t = Some bk"
      by blast
    note f = new_Booking_Some [OF n]
    from assms(2) have v: "aadhaarVerified bk"
      by (auto simp: f(14) not_verified_def)
    from paymentMode_path_Some [OF f(12)] optional_txnId_Some [OF f(13)] f(10,11) v c ph
    show ?thesis by auto
  qed
qed

theorem committed_record_normalized_witness:
  "post_handler example_runtime example_body (Some example_files) ''tok'' 1704067200002 []
     = (Response 201 (Created ''DH-tok'' example_booking), [example_booking])
   \<and> Some (pickupDate example_booking) = new_Date example_runtime (JStr ''2024-01-01'')
   \<and> Some (returnDate example_booking) = new_Date example_runtime (JStr ''2024-01-05'')
   \<and> paymentMode example_booking = ''UPI''
   \<and> txnId example_booking = None
   \<and> aadhaarVerified example_booking"
  using committed_record_normalized [OF example_passes_required example_verified
      example_first_file, of example_runtime "''tok''" 1704067200002 "[]"]
  by (auto simp: example_created)

text \<open>
  C4 as stated fails: a form that submits paymentMode and txnId as empty strings is
  accepted, and the record holds UPI and null, not the submitted values.
\<close>

theorem empty_paymentMode_counterexample:
  "(example_body(''paymentMode'' \<mapsto> JStr [], ''txnId'' \<mapsto> JStr [])) ''paymentMode'' = Some (JStr [])
   \<and> (example_body(''paymentMode'' \<mapsto> JStr [], ''txnId'' \<mapsto> JStr [])) ''txnId'' = Some (JStr [])
   \<and> map_option paymentMode
        (created (fst (post_handler example_runtime
           (example_body(''paymentMode'' \<mapsto> JStr [], ''txnId'' \<mapsto> JStr []))
           (Some example_files) ''tok'' 1704067200002 []))) = Some ''UPI''
   \<and> map_option txnId
        (created (fst (post_handler example_runtime
           (example_body(''paymentMode'' \<mapsto> JStr [], ''txnId'' \<mapsto> JStr []))
           (Some example_files) ''tok'' 1704067200002 []))) = Some None"
proof -
  have "post_handler example_runtime
           (example_body(''paymentMode'' \<mapsto> JStr [], ''txnId'' \<mapsto> JStr []))
           (Some example_files) ''tok'' 1704067200002 []
         = (Response 201 (Created ''DH-tok'' (example_booking\<lparr>paymentMode := ''UPI'', txnId := None\<rparr>)),
            [example_booking\<lparr>paymentMode := ''UPI'', txnId := None\<rparr>])"
    by (rule example_created_with) (simp_all add: js_or_def paymentMode_path_def optional_String_def)
  then show ?thesis
    by (simp add: created_def)
qed

section \<open>The booking id\<close>

text \<open>
  C5. The bookingId an accepted submission is answered with is not empty, is DH-
  followed by the generator's token, and is the id of the record that the acceptance
  appends to the store. It is the id of no record the store held before, and a later
  submission for which the generator draws the same token is not accepted and leaves
  the store as it is. Over any sequence of requests from any state, the ids of the
  accepted submissions are pairwise distinct, are none of the ids the store held at
  the start, and are exactly the ids the store gains, in the order of acceptance.
\<close>

theorem bookingId_prefixed_unique:
  assumes "post_handler rt b fo tk t st = (Response 201 (Created bid bk), st')"
  shows "bid \<noteq> [] \<and> bid = ''DH-'' @ tk \<and> bookingId bk = bid
         \<and> st' = st @ [bk]
         \<and> bid \<notin> set (map bookingId st)
         \<and> (distinct (map bookingId st) \<longrightarrow> distinct (map bookingId st'))
         \<and> created_id (fst (post_handler rt b2 fo2 tk t2 st')) = None
         \<and> snd (post_handler rt b2 fo2 tk t2 st') = st'
         \<and> distinct (created_ids (fst (serve rt reqs s)))
         \<and> set (created_ids (fst (serve rt reqs s))) \<inter> set (map bookingId (store s)) = {}
         \<and> map bookingId (store (snd (serve rt reqs s)))
             = map bookingId (store s) @ created_ids (fst (serve rt reqs s))"
proof -
  from assms obtain af lf where bid: "bid = ''DH-'' @ tk"
    and n: "new_Booking rt bid b af lf t = Some bk"
    and u: "bookingId bk \<notin> set (map bookingId st)"
    and st': "st' = st @ [bk]"
    by (rule post_handler_Created)
  note i = new_Booking_Some(1) [OF n]
  from i bid st' have "''DH-'' @ tk \<in> set (map bookingId st')"
    by simp
  note c = post_handler_collision [OF this, of rt b2 fo2 t2]
  from serve_store [of rt reqs s] obtain news where
    "store (snd (serve rt reqs s)) = store s @ news"
    "map bookingId news = created_ids (fst (serve rt reqs s))"
    "distinct (created_ids (fst (serve rt reqs s)))"
    "set (created_ids (fst (serve rt reqs s))) \<inter> set (map bookingId (store s)) = {}"
    by blast
  with i bid u st' c show ?thesis
    by auto
qed

theorem bookingId_prefixed_unique_witness:
  "bookingId example_booking = ''DH-tok''
   \<and> created_id (fst (post_handler example_runtime example_body (Some example_files)
                         ''tok'' 1704067200009 [example_booking])) = None
   \<and> created_ids (fst (serve example_runtime example_run empty_state)) = [''DH-tok'', ''DH-tok2'']
   \<and> distinct (created_ids (fst (serve example_runtime example_run empty_state)))
   \<and> map bookingId (store (snd (serve example_runtime example_run empty_state)))
       = [''DH-tok'', ''DH-tok2'']"
proof -
  have e: "created_ids (fst (serve example_runtime example_run empty_state))
           = [''DH-tok'', ''DH-tok2'']"
    by (simp add: example_run_answers created_ids_def)
  have s: "map bookingId (store empty_state) = []"
    by (simp add: empty_state_def)
  have "bookingId example_booking = ''DH-tok''
    \<and> created_id (fst (post_handler example_runtime example_body (Some example_files)
                         ''tok'' 1704067200009 [example_booking])) = None
    \<and> distinct (created_ids (fst (serve example_runtime example_run empty_state)))
    \<and> map bookingId (store (snd (serve example_runtime example_run empty_state)))
       = map bookingId (store empty_state)
         @ created_ids (fst (serve example_runtime example_run empty_state))"
    using bookingId_prefixed_unique [OF example_created, where ?b2.0 = example_body
        and ?fo2.0 = "Some example_files" and ?t2.0 = 1704067200009
        and reqs = example_run and s = empty_state]
    by (elim conjE) (intro conjI, assumption+)
  then show ?thesis
    by (simp only: e s append_Nil)
qed

section \<open>Fetching a created booking\<close>

text \<open>
  C6, as amended. After a creation, fetching the returned id yields the created
  booking, from the store the creation left and from the store after any further
  requests; fetching any other id yields what it yielded before the creation. The
  fields of the booking are the submitted ones after the normalization of the handler
  and of the schema: a text field is the text the schema's String cast keeps of the
  submitted value (a submitted string itself; the _id of a submitted object with a
  string _id), a date is the submitted value read by the Date constructor, a photo
  reference is /uploads/ followed by the stored name of the file, paymentMode is the
  text of the submitted value, or UPI for a falsy value, txnId is the text of the
  submitted value, or null for a falsy value, and the flag is true.
\<close>

theorem created_booking_roundtrip:
  assumes "post_handler rt b fo tk t st = (Response 201 (Created bid bk), st')"
  shows "get_booking bid st' = Response 200 (Booking bk)
         \<and> get_booking bid (store (snd (serve rt reqs \<lparr>store = st', disk = d\<rparr>)))
             = Response 200 (Booking bk)
         \<and> (other \<noteq> bid \<longrightarrow> get_booking other st' = get_booking other st)
         \<and> text_of rt (body_field b ''name'') = Some (name bk)
         \<and> text_of rt (body_field b ''contact'') = Some (contact bk)
         \<and> text_of rt (body_field b ''aadhar'') = Some (aadhar bk)
         \<and> text_of rt (body_field b ''license'') = Some (license bk)
         \<and> text_of rt (body_field b ''pickup'') = Some (pickup bk)
         \<and> text_of rt (body_field b ''drop'') = Some (drop' bk)
         \<and> new_Date rt (body_field b ''pickupDate'') = Some (pickupDate bk)
         \<and> new_Date rt (body_field b ''returnDate'') = Some (returnDate bk)
         \<and> map_option (\<lambda>f. ''/uploads/'' @ filename f) (first_file fo ''aadharPhoto'')
             = aadharPhoto bk
         \<and> map_option (\<lambda>f. ''/uploads/'' @ filename f) (first_file fo ''licensePhoto'')
             = licensePhoto bk
         \<and> (if truthy (body_field b ''paymentMode'')
             then text_of rt (body_field b ''paymentMode'') = Some (paymentMode bk)
             else paymentMode bk = ''UPI'')
         \<and> txnId bk = (if truthy (body_field b ''txnId'')
                        then text_of rt (body_field b ''txnId'') else None)
         \<and> aadhaarVerified bk"
proof -
  from assms obtain af lf where f: "first_file fo ''aadharPhoto'' = Some af"
      "first_file fo ''licensePhoto'' = Some lf"
    and v: "\<not> not_verified (body_field b ''aadhaarVerified'')"
    and n: "new_Booking rt bid b af lf t = Some bk"
    and u: "bookingId bk \<notin> set (map bookingId st)"
    and st': "st' = st @ [bk]"
    by (rule post_handler_Created)
  note nb = new_Booking_Some [OF n]
  from findOne_last [OF u] nb(1) st' have fo: "findOne bid st' = Some bk"
    by simp
  then have g: "get_booking bid st' = Response 200 (Booking bk)"
    by (simp add: get_booking_def)
  from serve_store [of rt reqs "\<lparr>store = st', disk = d\<rparr>"] obtain news where
    "store (snd (serve rt reqs \<lparr>store = st', disk = d\<rparr>)) = st' @ news"
    by auto
  with findOne_append [OF fo, of news]
  have l: "get_booking bid (store (snd (serve rt reqs \<lparr>store = st', disk = d\<rparr>)))
           = Response 200 (Booking bk)"
    by (simp add: get_booking_def)
  have o: "other \<noteq> bid \<longrightarrow> get_booking other st' = get_booking other st"
    using findOne_other [of other bk st] nb(1) st' by (simp add: get_booking_def)
  from v have "aadhaarVerified bk"
    by (auto simp: nb(14) not_verified_def)
  with g l o f nb(2-11) paymentMode_path_Some [OF nb(12)] optional_txnId_Some [OF nb(13)]
  show ?thesis
    by simp
qed

theorem created_booking_roundtrip_witness:
  "get_booking ''DH-tok2'' [example_booking, example_booking2]
     = Response 200 (Booking example_booking2)
   \<and> get_booking ''DH-tok2''
        (store (snd (serve example_runtime [example_request\<lparr>token := ''tok3''\<rparr>]
           \<lparr>store = [example_booking, example_booking2], disk = Map.empty\<rparr>)))
     = Response 200 (Booking example_booking2)
   \<and> get_booking ''DH-tok'' [example_booking, example_booking2]
     = get_booking ''DH-tok'' [example_booking]
   \<and> name example_booking2 = ''A'' \<and> contact example_booking2 = ''9999999999''
   \<and> aadhar example_booking2 = ''1234'' \<and> license example_booking2 = ''LIC1''
   \<and> pickup example_booking2 = ''X'' \<and> drop' example_booking2 = ''Y''
   \<and> pickupDate example_booking2 = 1704067200000 \<and> returnDate example_booking2 = 1704412800000
   \<and> aadharPhoto example_booking2 = Some ''/uploads/1704067200000-f1.jpg''
   \<and> licensePhoto example_booking2 = Some ''/uploads/1704067200001-f2.jpg''
   \<and> paymentMode example_booking2 = ''UPI'' \<and> txnId example_booking2 = None
   \<and> aadhaarVerified example_booking2"
proof -
  have "post_handler example_runtime example_body (Some example_files) ''tok2'' 1704067200003
          [example_booking]
        = (Response 201 (Created ''DH-tok2'' example_booking2), [example_booking, example_booking2])"
    by (simp add: example_post_handler example_booking2_def example_booking_def)
  from created_booking_roundtrip [OF this,
      of "[example_request\<lparr>token := ''tok3''\<rparr>]" Map.empty "''DH-tok''"]
  show ?thesis
    by simp
qed

text \<open>
  C6 as stated fails: a form field named name[_id] with the value abc reaches the
  handler as an object; the submission is accepted, and the booking fetched under the
  returned id has the name abc, which is not the value submitted for name.
\<close>

theorem name_id_counterexample:
  "(example_body(''name'' \<mapsto> JObj [(''_id'', JStr ''abc'')])) ''name''
     = Some (JObj [(''_id'', JStr ''abc'')])
   \<and> fst (post_handler example_runtime (example_body(''name'' \<mapsto> JObj [(''_id'', JStr ''abc'')]))
            (Some example_files) ''tok'' 1704067200002 [])
     = Response 201 (Created ''DH-tok'' (example_booking\<lparr>name := ''abc''\<rparr>))
   \<and> get_booking ''DH-tok''
        (snd (post_handler example_runtime (example_body(''name'' \<mapsto> JObj [(''_id'', JStr ''abc'')]))
               (Some example_files) ''tok'' 1704067200002 []))
     = Response 200 (Booking (example_booking\<lparr>name := ''abc''\<rparr>))
   \<and> name (example_booking\<lparr>name := ''abc''\<rparr>) = ''abc''
   \<and> JStr ''abc'' \<noteq> JObj [(''_id'', JStr ''abc'')]"
proof -
  let ?b = "example_body(''name'' \<mapsto> JObj [(''_id'', JStr ''abc'')])"
  have "new_Booking example_runtime ''DH-tok'' ?b (stored example_runtime aadhar_jpg)
           (stored example_runtime license_jpg) 1704067200002
        = Some (example_booking\<lparr>name := ''abc''\<rparr>)"
    by (simp add: new_Booking_def required_String_def get_prop_def required_Date_def js_or_def
        paymentMode_path_def optional_String_def example_booking_def)
  moreover have "\<not> missing_required ?b"
    by (simp add: missing_required_def)
  ultimately have "post_handler example_runtime ?b (Some example_files) ''tok'' 1704067200002 []
        = (Response 201 (Created ''DH-tok'' (example_booking\<lparr>name := ''abc''\<rparr>)),
           [example_booking\<lparr>name := ''abc''\<rparr>])"
    by (simp add: post_handler_def not_verified_def create_booking_def Let_def save_def)
  then show ?thesis
    by (simp add: get_booking_def findOne_def example_booking_def)
qed

section \<open>txnId and paymentMode\<close>

text \<open>
  C9, as amended. txnId does not depend on paymentMode: a created record carries a
  txnId exactly when the submission had a non-empty (truthy) one, and its paymentMode
  is UPI or Cash.
\<close>

theorem txnId_follows_submission:
  assumes "post_handler rt b fo tk t st = (Response 201 (Created bid bk), st')"
  shows "(txnId bk \<noteq> None) = truthy (body_field b ''txnId'')
         \<and> (paymentMode bk = ''UPI'' \<or> paymentMode bk = ''Cash'')"
proof -
  from assms obtain af lf where n: "new_Booking rt bid b af lf t = Some bk"
    by (rule post_handler_Created)
  note nb = new_Booking_Some [OF n]
  from optional_txnId_present [OF nb(13)] paymentMode_path_Some [OF nb(12)] show ?thesis
    by simp
qed

theorem txnId_follows_submission_witness:
  "(txnId example_booking \<noteq> None) = truthy JUndefined
   \<and> paymentMode example_booking = ''UPI''"
  using txnId_follows_submission [OF example_created]
  by (simp add: example_booking_def)


text \<open>
  C9 as stated fails: a Cash booking submitted with a txnId is stored with it.
\<close>

theorem cash_with_txnId_counterexample:
  "map_option paymentMode
     (created (fst (post_handler example_runtime
        (example_body(''paymentMode'' \<mapsto> JStr ''Cash'', ''txnId'' \<mapsto> JStr ''T123''))
        (Some example_files) ''tok'' 1704067200002 []))) = Some ''Cash''
   \<and> map_option txnId
     (created (fst (post_handler example_runtime
        (example_body(''paymentMode'' \<mapsto> JStr ''Cash'', ''txnId'' \<mapsto> JStr ''T123''))
        (Some example_files) ''tok'' 1704067200002 []))) = Some (Some ''T123'')"
proof -
  have "post_handler example_runtime
           (example_body(''paymentMode'' \<mapsto> JStr ''Cash'', ''txnId'' \<mapsto> JStr ''T123''))
           (Some example_files) ''tok'' 1704067200002 []
         = (Response 201 (Created ''DH-tok''
               (example_booking\<lparr>paymentMode := ''Cash'', txnId := Some ''T123''\<rparr>)),
            [example_booking\<lparr>paymentMode := ''Cash'', txnId := Some ''T123''\<rparr>])"
    by (rule example_created_with) (simp_all add: js_or_def paymentMode_path_def optional_String_def)
  then show ?thesis
    by (simp add: created_def)
qed

section \<open>Listing\<close>

lemma sort_createdAt_desc_sorted:
  "sorted_wrt (\<lambda>x y. createdAt y \<le> createdAt x) (sort_createdAt_desc st)"
proof -
  have "sorted (map createdAt (sort_key createdAt st))"
    by (rule sorted_sort_key)
  then have "sorted_wrt (\<lambda>x y. createdAt x \<le> createdAt y) (sort_key createdAt st)"
    by (simp add: sorted_wrt_map)
  then show ?thesis
    by (simp add: sort_createdAt_desc_def sorted_wrt_rev)
qed

text \<open>
  C7. Whatever the store holds and whatever the caller asks for, the list route answers
  with listRecent of the store: bookings of the store in non-increasing createdAt
  order, never more than 200 of them.
\<close>

theorem listRecent_sorted_bounded:
  "list_bookings query st = Response 200 (Bookings (listRecent st))
   \<and> sorted_wrt (\<lambda>x y. createdAt y \<le> createdAt x) (listRecent st)
   \<and> length (listRecent st) \<le> 200
   \<and> set (listRecent st) \<subseteq> set st"
proof -
  have "sorted_wrt (\<lambda>x y. createdAt y \<le> createdAt x) (listRecent st)"
    unfolding listRecent_def using sort_createdAt_desc_sorted by (rule sorted_wrt_take)
  moreover have "set (listRecent st) \<subseteq> set st"
    using set_take_subset [of 200 "sort_createdAt_desc st"]
    by (simp add: listRecent_def sort_createdAt_desc_def)
  ultimately show ?thesis
    by (simp add: list_bookings_def listRecent_def)
qed

theorem listRecent_sorted_bounded_witness:
  "list_bookings [''limit'' \<mapsto> JNum 500]
       [example_booking\<lparr>createdAt := 1\<rparr>, example_booking\<lparr>createdAt := 3\<rparr>,
        example_booking\<lparr>createdAt := 2\<rparr>]
     = Response 200 (Bookings
         [example_booking\<lparr>createdAt := 3\<rparr>, example_booking\<lparr>createdAt := 2\<rparr>,
          example_booking\<lparr>createdAt := 1\<rparr>])
   \<and> length (listRecent (replicate 500 example_booking)) \<le> 200"
proof -
  have "listRecent [example_booking\<lparr>createdAt := 1\<rparr>, example_booking\<lparr>createdAt := 3\<rparr>,
        example_booking\<lparr>createdAt := 2\<rparr>]
      = [example_booking\<lparr>createdAt := 3\<rparr>, example_booking\<lparr>createdAt := 2\<rparr>,
          example_booking\<lparr>createdAt := 1\<rparr>]"
    by (simp add: listRecent_def sort_createdAt_desc_def)
  with listRecent_sorted_bounded [of "[''limit'' \<mapsto> JNum 500]"
      "[example_booking\<lparr>createdAt := 1\<rparr>, example_booking\<lparr>createdAt := 3\<rparr>,
        example_booking\<lparr>createdAt := 2\<rparr>]"]
    listRecent_sorted_bounded [of Map.empty "replicate 500 example_booking"]
  show ?thesis by simp
qed




section \<open>File Intake and the route\<close>

lemma accept_not_image:
  "\<not> prefix ''image/'' (mimetype f) \<Longrightarrow> accept rt f d = Inl (UnsupportedMediaType, d)"
  by (simp add: accept_def fileFilter_def)

lemma accept_too_large:
  "prefix ''image/'' (mimetype f) \<Longrightarrow> fileSize < size' f
   \<Longrightarrow> accept rt f d = Inl (PayloadTooLarge, d(storage_filename rt f := None))"
  by (simp add: accept_def fileFilter_def Let_def)

lemma accept_rejects:
  assumes "\<not> prefix ''image/'' (mimetype f) \<or> fileSize < size' f"
  shows "\<exists>e d'. accept rt f d = Inl (e, d')"
  using assms accept_not_image [of f rt d] accept_too_large [of f rt d] by blast








lemma upload_parts_stored:
  assumes "upload_parts rt ps left acc d = Inr (fs, d')"
      and "\<forall>f \<in> set acc. filename f \<in> dom d"
  shows "(\<forall>f \<in> set fs. filename f \<in> dom d')
         \<and> fs = acc @ map (stored rt) (filter (\<lambda>p. originalname p \<noteq> []) ps)"
  using assms
proof (induction ps arbitrary: left acc d)
  case Nil
  then show ?case by simp
next
  case (Cons p ps)
  show ?case
  proof (cases "originalname p = []")
    case True
    with Cons.prems(1) have "upload_parts rt ps left acc d = Inr (fs, d')"
      by simp
    from Cons.IH [OF this Cons.prems(2)] True show ?thesis
      by simp
  next
    case named: False
    with Cons.prems(1) have l: "left (fieldname p) \<noteq> 0"
      by (auto split: if_splits)
    show ?thesis
    proof (cases "prefix ''image/'' (mimetype p) \<and> \<not> fileSize < size' p")
      case False
      with accept_rejects [of p rt d] obtain e d'' where "accept rt p d = Inl (e, d'')"
        by auto
      with Cons.prems(1) l named show ?thesis by simp
    next
      case True
      then have a: "accept rt p d = Inr (stored rt p, d(storage_filename rt p \<mapsto> p))"
        by (simp add: accept_ok)
      with Cons.prems(1) l named
      have r: "upload_parts rt ps (left(fieldname p := left (fieldname p) - 1))
                 (acc @ [stored rt p]) (d(storage_filename rt p \<mapsto> p)) = Inr (fs, d')"
        by simp
      from Cons.prems(2)
      have "\<forall>f \<in> set (acc @ [stored rt p]). filename f \<in> dom (d(storage_filename rt p \<mapsto> p))"
        by auto
      from Cons.IH [OF r this] named show ?thesis
        by auto
    qed
  qed
qed

lemma example_accepted:
  "post_bookings example_runtime example_request empty_state
   = (Response 201 (Created ''DH-tok'' example_booking),
      \<lparr>store = [example_booking],
       disk = [''1704067200000-f1.jpg'' \<mapsto> aadhar_jpg, ''1704067200001-f2.jpg'' \<mapsto> license_jpg]\<rparr>)"
proof -
  have "example_booking\<lparr>bookingId := ''DH-tok'', createdAt := 1704067200002\<rparr> = example_booking"
    by (simp add: example_booking_def)
  then show ?thesis
    by (simp add: example_post_bookings example_request_def empty_state_def)
qed

text \<open>
  C10. When File Intake has let a multipart request through and the handler then
  rejects the submission at one of its three gates, the upload directory is what File
  Intake left: the stored name of every file part that declares a file name is in it
  (a part with no file name, as a browser sends for an empty file input, is no file and
  stores nothing), and the store is as it was.
\<close>

theorem files_remain_after_gate_rejection:
  assumes "multipart req"
      and "upload_fields rt (parts req) (disk s) = Inr (fs, d)"
      and "fst (post_bookings rt req s) \<in> {MissingFields, VerificationRequired, MissingDocuments}"
  shows "disk (snd (post_bookings rt req s)) = d
         \<and> fs = map (stored rt) (filter (\<lambda>p. originalname p \<noteq> []) (parts req))
         \<and> (\<forall>p \<in> set (parts req). originalname p \<noteq> []
               \<longrightarrow> storage_filename rt p \<in> dom (disk (snd (post_bookings rt req s))))
         \<and> store (snd (post_bookings rt req s)) = store s"
proof -
  from assms(2) have st: "\<forall>f \<in> set fs. filename f \<in> dom d"
    and fs: "fs = map (stored rt) (filter (\<lambda>p. originalname p \<noteq> []) (parts req))"
    using upload_parts_stored [of rt "parts req" filesLeft0 "[]" "disk s" fs d]
    by (simp_all add: upload_fields_def)
  from st fs have names: "\<forall>p \<in> set (parts req). originalname p \<noteq> []
                            \<longrightarrow> storage_filename rt p \<in> dom d"
    by simp
  obtain r st' where ph:
    "post_handler rt (body req) (Some (req_files fs)) (token req) (now req) (store s) = (r, st')"
    by (cases "post_handler rt (body req) (Some (req_files fs)) (token req) (now req) (store s)")
  with assms(1,2) have pb: "post_bookings rt req s = (r, \<lparr>store = st', disk = d\<rparr>)"
    by (simp add: post_bookings_def)
  with assms(3) have "r \<in> {MissingFields, VerificationRequired, MissingDocuments}"
    by simp
  with ph have "st' = store s"
    by (auto simp: post_handler_def MissingFields_def VerificationRequired_def MissingDocuments_def
        create_booking_def Let_def split: if_splits option.splits)
  with pb names fs show ?thesis
    by simp
qed

theorem files_remain_after_gate_rejection_witness:
  "fst (post_bookings example_runtime (example_request\<lparr>parts := [aadhar_jpg, no_file]\<rparr>)
          empty_state) = MissingDocuments
   \<and> ''1704067200000-f1.jpg'' \<in> dom (disk (snd (post_bookings example_runtime
          (example_request\<lparr>parts := [aadhar_jpg, no_file]\<rparr>) empty_state)))
   \<and> disk (snd (post_bookings example_runtime
          (example_request\<lparr>parts := [aadhar_jpg, no_file]\<rparr>) empty_state))
       = [''1704067200000-f1.jpg'' \<mapsto> aadhar_jpg]
   \<and> store (snd (post_bookings example_runtime
          (example_request\<lparr>parts := [aadhar_jpg, no_file]\<rparr>) empty_state)) = []"
proof -
  let ?req = "example_request\<lparr>parts := [aadhar_jpg, no_file]\<rparr>"
  have m: "multipart ?req" and p: "parts ?req = [aadhar_jpg, no_file]"
    by (simp_all add: example_request_def)
  have nf: "originalname no_file = []"
    by (simp add: no_file_def)
  have uf: "upload_fields example_runtime [aadhar_jpg, no_file] Map.empty
            = Inr ([stored example_runtime aadhar_jpg], [''1704067200000-f1.jpg'' \<mapsto> aadhar_jpg])"
    by (simp add: upload_fields_def filesLeft0_def accept_ok nf)
  then have u: "upload_fields example_runtime (parts ?req) (disk empty_state)
           = Inr ([stored example_runtime aadhar_jpg], [''1704067200000-f1.jpg'' \<mapsto> aadhar_jpg])"
    by (simp add: p empty_state_def)
  have "first_file (Some (req_files [stored example_runtime aadhar_jpg])) ''licensePhoto'' = None"
    by (simp add: first_file_req_files)
  then have r: "fst (post_bookings example_runtime ?req empty_state) = MissingDocuments"
    by (simp add: post_bookings_def example_request_def empty_state_def uf post_handler_def
        example_passes_required not_verified_def MissingDocuments_def first_file_req_files)
  then have "fst (post_bookings example_runtime ?req empty_state)
             \<in> {MissingFields, VerificationRequired, MissingDocuments}"
    by simp
  from files_remain_after_gate_rejection [OF m u this] r p show ?thesis
    by (simp add: empty_state_def)
qed

end
